theory Spec2Isabelle
  imports Main
begin

section \<open>Precision dispatch of the fully connected operator on CUDA\<close>

text \<open>
  A shallow embedding of \<^verbatim>\<open>caffe2/operators/fully_connected_op_gpu.cc\<close>: the two
  dispatch templates \<^verbatim>\<open>RunFullyConnectedOpOnCUDADevice\<close> and
  \<^verbatim>\<open>RunFullyConnectedGradientOpOnCUDADevice\<close>, and the \<^verbatim>\<open>RunOnDevice\<close>
  specialisations that call them.
\<close>

subsection \<open>Data\<close>

text \<open>
  Element types. The file names two, \<^verbatim>\<open>float\<close> and \<^verbatim>\<open>float16\<close>, both as the run
  time type of a tensor (\<^verbatim>\<open>IsType<float>()\<close>) and as template arguments of
  \<^verbatim>\<open>DoRunWithType\<close>. A tensor may hold any other type; \<open>other_type n\<close> stands for
  the \<open>n\<close>-th of them.
\<close>

datatype ctype = float | float16 | other_type nat

text \<open>\<^verbatim>\<open>t.IsType<T>()\<close>: the tensor's element type is \<open>T\<close>.\<close>

definition IsType :: "ctype \<Rightarrow> ctype \<Rightarrow> bool" where
  "IsType t T = (t = T)"

text \<open>
  The template arguments of the forward \<^verbatim>\<open>DoRunWithType\<close>, named by the comments
  of the source: X, W, B, Y, Math.
\<close>

record fc_types =
  fc_X :: ctype
  fc_W :: ctype
  fc_B :: ctype
  fc_Y :: ctype
  fc_Math :: ctype

text \<open>
  The template arguments of the gradient \<^verbatim>\<open>DoRunWithType\<close>: X, W, dY, B, dX, dW,
  dB, Math.
\<close>

record fcg_types =
  fcg_X :: ctype
  fcg_W :: ctype
  fcg_dY :: ctype
  fcg_B :: ctype
  fcg_dX :: ctype
  fcg_dW :: ctype
  fcg_dB :: ctype
  fcg_Math :: ctype

text \<open>\<^verbatim>\<open>cudaDeviceProp\<close>: the one field the file reads.\<close>

record cudaDeviceProp =
  major :: int

text \<open>\<^verbatim>\<open>constexpr int kFp16CUDADevicePropMajor = 6;\<close>\<close>

definition kFp16CUDADevicePropMajor :: int where
  "kFp16CUDADevicePropMajor = 6"

text \<open>
  \<^verbatim>\<open>CAFFE_THROW(msg)\<close> throws \<^verbatim>\<open>EnforceNotMet\<close> carrying the message. The only throw
  of the file carries \<^verbatim>\<open>"Unsupported type"\<close>.
\<close>

datatype error = EnforceNotMet string

definition UnsupportedType :: error where
  "UnsupportedType = EnforceNotMet ''Unsupported type''"

text \<open>
  The operator as the dispatchers see it, through the template parameter
  \<^verbatim>\<open>FullyConnectedOp* op\<close>; \<open>'i\<close> is the tuple of template arguments of its
  \<^verbatim>\<open>DoRunWithType\<close>.
  \<^item> \<open>Input0\<close>: the element type of \<^verbatim>\<open>op->Input(0)\<close>;
  \<^item> \<open>DoRunWithType\<close>: what \<^verbatim>\<open>op->DoRunWithType<...>()\<close> returns for each
    instantiation (declared in \<^verbatim>\<open>fully_connected_op.h\<close>, taken as a parameter);
  \<^item> \<open>float16_compute_member\<close>: the member \<^verbatim>\<open>float16_compute_\<close>, which the
    default-engine \<^verbatim>\<open>RunOnDevice\<close> specialisations pass on;
  \<^item> \<open>context_gpu_id\<close>: the device of the operator's \<^verbatim>\<open>CUDAContext\<close> (declared in
    \<^verbatim>\<open>context_gpu.h\<close>). No line of the file reads it.
\<close>

record 'i FullyConnectedOp =
  Input0 :: ctype
  DoRunWithType :: "'i \<Rightarrow> bool"
  float16_compute_member :: bool
  context_gpu_id :: int

text \<open>
  What a call does besides returning, in the order it happens: a call of
  \<^verbatim>\<open>GetDeviceProperty(i)\<close>, a \<^verbatim>\<open>LOG(INFO)\<close> message, a call of
  \<^verbatim>\<open>op->DoRunWithType<...>()\<close>.
\<close>

datatype 'i event =
  GetDevicePropertyCall int
| LOG_INFO string
| DoRunWithTypeCall 'i

text \<open>
  The outcome of a call: the thrown error or the returned \<^verbatim>\<open>bool\<close>, and the events.
\<close>

type_synonym 'i outcome = "(error + bool) \<times> 'i event list"

text \<open>\<^verbatim>\<open>return op->DoRunWithType<...>();\<close> after the events \<open>es\<close>.\<close>

definition return_DoRunWithType ::
  "'i event list \<Rightarrow> 'i FullyConnectedOp \<Rightarrow> 'i \<Rightarrow> 'i outcome" where
  "return_DoRunWithType es op i = (Inr (DoRunWithType op i), es @ [DoRunWithTypeCall i])"

definition fallback_message :: string where
  "fallback_message =
     ''CUDA Device does not support FP16 computation, '' @ ''falling back to FP32.''"

subsection \<open>The dispatchers\<close>

text \<open>
  \<^verbatim>\<open>RunFullyConnectedOpOnCUDADevice\<close> (lines 27 to 70). \<^verbatim>\<open>GetDeviceProperty\<close> is
  declared in \<^verbatim>\<open>common_gpu.h\<close> and taken as a parameter. Every branch of the
  \<^verbatim>\<open>if\<close> chain returns or throws, so the closing \<^verbatim>\<open>return false;\<close> is never
  reached.
\<close>

definition RunFullyConnectedOpOnCUDADevice ::
  "(int \<Rightarrow> cudaDeviceProp) \<Rightarrow> bool \<Rightarrow> fc_types FullyConnectedOp \<Rightarrow> fc_types outcome" where
  "RunFullyConnectedOpOnCUDADevice GetDeviceProperty float16_compute op =
    (if IsType (Input0 op) float then
       return_DoRunWithType [] op
         \<lparr>fc_X = float, fc_W = float, fc_B = float, fc_Y = float, fc_Math = float\<rparr>
     else if IsType (Input0 op) float16 then
       (if float16_compute then
          (let prop = GetDeviceProperty 0 in
           if major prop \<ge> kFp16CUDADevicePropMajor then
             return_DoRunWithType [GetDevicePropertyCall 0] op
               \<lparr>fc_X = float16, fc_W = float16, fc_B = float16, fc_Y = float16,
                fc_Math = float16\<rparr>
           else
             return_DoRunWithType [GetDevicePropertyCall 0, LOG_INFO fallback_message] op
               \<lparr>fc_X = float16, fc_W = float16, fc_B = float16, fc_Y = float16,
                fc_Math = float\<rparr>)
        else
          return_DoRunWithType [] op
            \<lparr>fc_X = float16, fc_W = float16, fc_B = float16, fc_Y = float16,
             fc_Math = float\<rparr>)
     else (Inl (EnforceNotMet ''Unsupported type''), []))"

text \<open>\<^verbatim>\<open>RunFullyConnectedGradientOpOnCUDADevice\<close> (lines 72 to 127).\<close>

definition RunFullyConnectedGradientOpOnCUDADevice ::
  "(int \<Rightarrow> cudaDeviceProp) \<Rightarrow> bool \<Rightarrow> fcg_types FullyConnectedOp \<Rightarrow> fcg_types outcome" where
  "RunFullyConnectedGradientOpOnCUDADevice GetDeviceProperty float16_compute op =
    (if IsType (Input0 op) float then
       return_DoRunWithType [] op
         \<lparr>fcg_X = float, fcg_W = float, fcg_dY = float, fcg_B = float,
          fcg_dX = float, fcg_dW = float, fcg_dB = float, fcg_Math = float\<rparr>
     else if IsType (Input0 op) float16 then
       (if float16_compute then
          (let prop = GetDeviceProperty 0 in
           if major prop \<ge> kFp16CUDADevicePropMajor then
             return_DoRunWithType [GetDevicePropertyCall 0] op
               \<lparr>fcg_X = float16, fcg_W = float16, fcg_dY = float16, fcg_B = float16,
                fcg_dX = float16, fcg_dW = float16, fcg_dB = float16, fcg_Math = float16\<rparr>
           else
             return_DoRunWithType [GetDevicePropertyCall 0, LOG_INFO fallback_message] op
               \<lparr>fcg_X = float16, fcg_W = float16, fcg_dY = float16, fcg_B = float16,
                fcg_dX = float16, fcg_dW = float16, fcg_dB = float16, fcg_Math = float\<rparr>)
        else
          return_DoRunWithType [] op
            \<lparr>fcg_X = float16, fcg_W = float16, fcg_dY = float16, fcg_B = float16,
             fcg_dX = float16, fcg_dW = float16, fcg_dB = float16, fcg_Math = float\<rparr>)
     else (Inl (EnforceNotMet ''Unsupported type''), []))"

subsection \<open>The entry points\<close>

text \<open>
  The \<^verbatim>\<open>RunOnDevice\<close> specialisations (lines 133 to 191), one for each engine and
  each value of the transpose template argument. The two default-engine ones pass
  the operator's \<^verbatim>\<open>float16_compute_\<close>; the two \<^verbatim>\<open>TensorCoreEngine\<close> ones, compiled
  when \<^verbatim>\<open>CUDA_VERSION >= 9000\<close>, pass \<^verbatim>\<open>false\<close>. The transpose argument changes
  nothing in this file.
\<close>

datatype engine = DefaultEngine | TensorCoreEngine

definition FullyConnectedOp_RunOnDevice ::
  "engine \<Rightarrow> bool \<Rightarrow> (int \<Rightarrow> cudaDeviceProp) \<Rightarrow> fc_types FullyConnectedOp \<Rightarrow>
   fc_types outcome" where
  "FullyConnectedOp_RunOnDevice e TransposeWeight GetDeviceProperty op =
    (case e of
       DefaultEngine \<Rightarrow>
         RunFullyConnectedOpOnCUDADevice GetDeviceProperty (float16_compute_member op) op
     | TensorCoreEngine \<Rightarrow>
         RunFullyConnectedOpOnCUDADevice GetDeviceProperty False op)"

definition FullyConnectedGradientOp_RunOnDevice ::
  "engine \<Rightarrow> bool \<Rightarrow> (int \<Rightarrow> cudaDeviceProp) \<Rightarrow> fcg_types FullyConnectedOp \<Rightarrow>
   fcg_types outcome" where
  "FullyConnectedGradientOp_RunOnDevice e TransposeWeight GetDeviceProperty op =
    (case e of
       DefaultEngine \<Rightarrow>
         RunFullyConnectedGradientOpOnCUDADevice GetDeviceProperty (float16_compute_member op) op
     | TensorCoreEngine \<Rightarrow>
         RunFullyConnectedGradientOpOnCUDADevice GetDeviceProperty False op)"

subsection \<open>Reading an outcome\<close>

text \<open>The instantiations run, the messages logged and the devices queried, in order.\<close>

fun invoked :: "'i event list \<Rightarrow> 'i list" where
  "invoked [] = []"
| "invoked (DoRunWithTypeCall i # es) = i # invoked es"
| "invoked (_ # es) = invoked es"

fun logged :: "'i event list \<Rightarrow> string list" where
  "logged [] = []"
| "logged (LOG_INFO m # es) = m # logged es"
| "logged (_ # es) = logged es"

fun queried :: "'i event list \<Rightarrow> int list" where
  "queried [] = []"
| "queried (GetDevicePropertyCall d # es) = d # queried es"
| "queried (_ # es) = queried es"

text \<open>The named instantiations of the two dispatchers.\<close>

definition fc_all :: "ctype \<Rightarrow> ctype \<Rightarrow> fc_types" where
  "fc_all t m = \<lparr>fc_X = t, fc_W = t, fc_B = t, fc_Y = t, fc_Math = m\<rparr>"

definition fcg_all :: "ctype \<Rightarrow> ctype \<Rightarrow> fcg_types" where
  "fcg_all t m =
     \<lparr>fcg_X = t, fcg_W = t, fcg_dY = t, fcg_B = t, fcg_dX = t, fcg_dW = t, fcg_dB = t,
      fcg_Math = m\<rparr>"

text \<open>What a call threw, if it threw.\<close>

definition thrown :: "'i outcome \<Rightarrow> error option" where
  "thrown r = (case fst r of Inl e \<Rightarrow> Some e | Inr _ \<Rightarrow> None)"

text \<open>
  The roles the two \<^verbatim>\<open>DoRunWithType\<close> templates share: X, W, B and Math.
\<close>

definition fc_shared :: "fc_types \<Rightarrow> ctype \<times> ctype \<times> ctype \<times> ctype" where
  "fc_shared i = (fc_X i, fc_W i, fc_B i, fc_Math i)"

definition fcg_shared :: "fcg_types \<Rightarrow> ctype \<times> ctype \<times> ctype \<times> ctype" where
  "fcg_shared i = (fcg_X i, fcg_W i, fcg_B i, fcg_Math i)"

text \<open>
  \<open>lower_precision a b\<close>: \<open>a\<close> is a strictly narrower floating point type than \<open>b\<close>.
  Of the types the file instantiates, only \<^verbatim>\<open>float16\<close> is narrower than
  \<^verbatim>\<open>float\<close>.
\<close>

definition lower_precision :: "ctype \<Rightarrow> ctype \<Rightarrow> bool" where
  "lower_precision a b = (a = float16 \<and> b = float)"

text \<open>
  The accumulation type of an instantiation is sound: it is \<^verbatim>\<open>float\<close> or the
  type of every operand, and it is not narrower than all of them.
\<close>

definition fc_math_ok :: "fc_types \<Rightarrow> bool" where
  "fc_math_ok i =
    ((fc_Math i = float \<or>
      (fc_X i = fc_Math i \<and> fc_W i = fc_Math i \<and> fc_B i = fc_Math i \<and> fc_Y i = fc_Math i)) \<and>
     \<not> (lower_precision (fc_Math i) (fc_X i) \<and> lower_precision (fc_Math i) (fc_W i) \<and>
        lower_precision (fc_Math i) (fc_B i) \<and> lower_precision (fc_Math i) (fc_Y i)))"

definition fcg_math_ok :: "fcg_types \<Rightarrow> bool" where
  "fcg_math_ok i =
    ((fcg_Math i = float \<or>
      (fcg_X i = fcg_Math i \<and> fcg_W i = fcg_Math i \<and> fcg_dY i = fcg_Math i \<and>
       fcg_B i = fcg_Math i \<and> fcg_dX i = fcg_Math i \<and> fcg_dW i = fcg_Math i \<and>
       fcg_dB i = fcg_Math i)) \<and>
     \<not> (lower_precision (fcg_Math i) (fcg_X i) \<and> lower_precision (fcg_Math i) (fcg_W i) \<and>
        lower_precision (fcg_Math i) (fcg_dY i) \<and> lower_precision (fcg_Math i) (fcg_B i) \<and>
        lower_precision (fcg_Math i) (fcg_dX i) \<and> lower_precision (fcg_Math i) (fcg_dW i) \<and>
        lower_precision (fcg_Math i) (fcg_dB i)))"

text \<open>
  Two operators for the examples: input 0 of type \<open>t\<close>, on device \<open>d\<close>, whose
  routine returns true exactly when it accumulates in \<^verbatim>\<open>float\<close>.
\<close>

definition fc_example :: "ctype \<Rightarrow> bool \<Rightarrow> int \<Rightarrow> fc_types FullyConnectedOp" where
  "fc_example t fl d =
     \<lparr>Input0 = t, DoRunWithType = (\<lambda>i. fc_Math i = float), float16_compute_member = fl,
      context_gpu_id = d\<rparr>"

definition fcg_example :: "ctype \<Rightarrow> bool \<Rightarrow> int \<Rightarrow> fcg_types FullyConnectedOp" where
  "fcg_example t fl d =
     \<lparr>Input0 = t, DoRunWithType = (\<lambda>i. fcg_Math i = float), float16_compute_member = fl,
      context_gpu_id = d\<rparr>"

section \<open>Properties\<close>

lemmas dispatch_defs =
  RunFullyConnectedOpOnCUDADevice_def RunFullyConnectedGradientOpOnCUDADevice_def
  return_DoRunWithType_def IsType_def fc_all_def fcg_all_def

lemmas example_defs =
  fc_example_def fcg_example_def fc_all_def fcg_all_def kFp16CUDADevicePropMajor_def

subsection \<open>Half precision requested on a device below the threshold\<close>

text \<open>
  Claim C1. When input 0 is \<^verbatim>\<open>float16\<close>, the flag is true and the major revision
  of device 0 is below \<open>kFp16CUDADevicePropMajor\<close>, each dispatcher queries the
  device, logs the fallback message once, and then runs the instantiation with every
  data role \<^verbatim>\<open>float16\<close> and Math \<^verbatim>\<open>float\<close>, returning what that routine returns.
\<close>

theorem half_requested_unsupported_falls_back:
  assumes "Input0 fop = float16" and "Input0 gop = float16"
    and "major (GetDeviceProperty 0) < kFp16CUDADevicePropMajor"
  shows "RunFullyConnectedOpOnCUDADevice GetDeviceProperty True fop =
           (Inr (DoRunWithType fop (fc_all float16 float)),
            [GetDevicePropertyCall 0, LOG_INFO fallback_message,
             DoRunWithTypeCall (fc_all float16 float)]) \<and>
         RunFullyConnectedGradientOpOnCUDADevice GetDeviceProperty True gop =
           (Inr (DoRunWithType gop (fcg_all float16 float)),
            [GetDevicePropertyCall 0, LOG_INFO fallback_message,
             DoRunWithTypeCall (fcg_all float16 float)])"
  using assms by (simp add: dispatch_defs)

theorem half_requested_unsupported_falls_back_witness:
  "RunFullyConnectedOpOnCUDADevice (\<lambda>d. \<lparr>major = 5\<rparr>) True (fc_example float16 True 0) =
     (Inr True,
      [GetDevicePropertyCall 0, LOG_INFO fallback_message,
       DoRunWithTypeCall (fc_all float16 float)]) \<and>
   RunFullyConnectedGradientOpOnCUDADevice (\<lambda>d. \<lparr>major = 5\<rparr>) True
       (fcg_example float16 True 0) =
     (Inr True,
      [GetDevicePropertyCall 0, LOG_INFO fallback_message,
       DoRunWithTypeCall (fcg_all float16 float)])"
  using half_requested_unsupported_falls_back
    [of "fc_example float16 True 0" "fcg_example float16 True 0" "\<lambda>d. \<lparr>major = 5\<rparr>"]
  by (simp add: example_defs)

subsection \<open>Half precision requested on a device at or above the threshold\<close>

text \<open>
  Claim C2. The threshold is 6. When input 0 is \<^verbatim>\<open>float16\<close>, the flag is true and
  the major revision of device 0 is at least the threshold, each dispatcher queries the
  device and runs the instantiation with every role, Math included, \<^verbatim>\<open>float16\<close>;
  it logs nothing.
\<close>

theorem half_requested_supported_runs_all_half:
  assumes "Input0 fop = float16" and "Input0 gop = float16"
    and "major (GetDeviceProperty 0) \<ge> kFp16CUDADevicePropMajor"
  shows "kFp16CUDADevicePropMajor = 6 \<and>
         RunFullyConnectedOpOnCUDADevice GetDeviceProperty True fop =
           (Inr (DoRunWithType fop (fc_all float16 float16)),
            [GetDevicePropertyCall 0, DoRunWithTypeCall (fc_all float16 float16)]) \<and>
         RunFullyConnectedGradientOpOnCUDADevice GetDeviceProperty True gop =
           (Inr (DoRunWithType gop (fcg_all float16 float16)),
            [GetDevicePropertyCall 0, DoRunWithTypeCall (fcg_all float16 float16)]) \<and>
         logged (snd (RunFullyConnectedOpOnCUDADevice GetDeviceProperty True fop)) = [] \<and>
         logged (snd (RunFullyConnectedGradientOpOnCUDADevice GetDeviceProperty True gop)) = []"
  using assms by (simp add: dispatch_defs kFp16CUDADevicePropMajor_def)

theorem half_requested_supported_runs_all_half_witness:
  "RunFullyConnectedOpOnCUDADevice (\<lambda>d. \<lparr>major = 7\<rparr>) True (fc_example float16 True 0) =
     (Inr False, [GetDevicePropertyCall 0, DoRunWithTypeCall (fc_all float16 float16)]) \<and>
   RunFullyConnectedGradientOpOnCUDADevice (\<lambda>d. \<lparr>major = 6\<rparr>) True
       (fcg_example float16 True 0) =
     (Inr False, [GetDevicePropertyCall 0, DoRunWithTypeCall (fcg_all float16 float16)])"
  using half_requested_supported_runs_all_half
      [of "fc_example float16 True 0" "fcg_example float16 True 0" "\<lambda>d. \<lparr>major = 7\<rparr>"]
    half_requested_supported_runs_all_half
      [of "fc_example float16 True 0" "fcg_example float16 True 0" "\<lambda>d. \<lparr>major = 6\<rparr>"]
  by (simp add: example_defs)

subsection \<open>Full precision input\<close>

text \<open>
  Claim C3. When input 0 is \<^verbatim>\<open>float\<close>, each dispatcher, and each entry point of
  either engine, runs the instantiation with every role \<^verbatim>\<open>float\<close>, whatever the
  flag, the engine and the device properties are; no device is queried.
\<close>

theorem full_precision_input_runs_all_full:
  assumes "Input0 fop = float" and "Input0 gop = float"
  shows "RunFullyConnectedOpOnCUDADevice GetDeviceProperty float16_compute fop =
           (Inr (DoRunWithType fop (fc_all float float)),
            [DoRunWithTypeCall (fc_all float float)]) \<and>
         RunFullyConnectedGradientOpOnCUDADevice GetDeviceProperty float16_compute gop =
           (Inr (DoRunWithType gop (fcg_all float float)),
            [DoRunWithTypeCall (fcg_all float float)]) \<and>
         FullyConnectedOp_RunOnDevice e t GetDeviceProperty fop =
           (Inr (DoRunWithType fop (fc_all float float)),
            [DoRunWithTypeCall (fc_all float float)]) \<and>
         FullyConnectedGradientOp_RunOnDevice e t GetDeviceProperty gop =
           (Inr (DoRunWithType gop (fcg_all float float)),
            [DoRunWithTypeCall (fcg_all float float)]) \<and>
         queried (snd (RunFullyConnectedOpOnCUDADevice GetDeviceProperty float16_compute fop))
           = [] \<and>
         queried (snd (RunFullyConnectedGradientOpOnCUDADevice GetDeviceProperty
           float16_compute gop)) = []"
  using assms
  by (cases e)
    (simp_all add: dispatch_defs FullyConnectedOp_RunOnDevice_def
      FullyConnectedGradientOp_RunOnDevice_def)

theorem full_precision_input_runs_all_full_witness:
  "RunFullyConnectedOpOnCUDADevice (\<lambda>d. \<lparr>major = 5\<rparr>) True (fc_example float True 0) =
     (Inr True, [DoRunWithTypeCall (fc_all float float)]) \<and>
   FullyConnectedGradientOp_RunOnDevice TensorCoreEngine False (\<lambda>d. \<lparr>major = 5\<rparr>)
       (fcg_example float True 0) =
     (Inr True, [DoRunWithTypeCall (fcg_all float float)])"
  using full_precision_input_runs_all_full
    [of "fc_example float True 0" "fcg_example float True 0" "\<lambda>d. \<lparr>major = 5\<rparr>" True
      TensorCoreEngine False]
  by (simp add: example_defs)

subsection \<open>Half precision input, flag off\<close>

text \<open>
  Claim C4. When input 0 is \<^verbatim>\<open>float16\<close> and the flag is false, each dispatcher
  runs the instantiation with every data role \<^verbatim>\<open>float16\<close> and Math \<^verbatim>\<open>float\<close>,
  whatever the device properties are; no device is queried.
\<close>

theorem half_not_requested_accumulates_in_full:
  assumes "Input0 fop = float16" and "Input0 gop = float16"
  shows "RunFullyConnectedOpOnCUDADevice GetDeviceProperty False fop =
           (Inr (DoRunWithType fop (fc_all float16 float)),
            [DoRunWithTypeCall (fc_all float16 float)]) \<and>
         RunFullyConnectedGradientOpOnCUDADevice GetDeviceProperty False gop =
           (Inr (DoRunWithType gop (fcg_all float16 float)),
            [DoRunWithTypeCall (fcg_all float16 float)]) \<and>
         queried (snd (RunFullyConnectedOpOnCUDADevice GetDeviceProperty False fop)) = [] \<and>
         queried (snd (RunFullyConnectedGradientOpOnCUDADevice GetDeviceProperty False gop))
           = []"
  using assms by (simp add: dispatch_defs)

theorem half_not_requested_accumulates_in_full_witness:
  "RunFullyConnectedOpOnCUDADevice (\<lambda>d. \<lparr>major = 7\<rparr>) False (fc_example float16 False 0) =
     (Inr True, [DoRunWithTypeCall (fc_all float16 float)]) \<and>
   RunFullyConnectedGradientOpOnCUDADevice (\<lambda>d. \<lparr>major = 7\<rparr>) False
       (fcg_example float16 False 0) =
     (Inr True, [DoRunWithTypeCall (fcg_all float16 float)])"
  using half_not_requested_accumulates_in_full
    [of "fc_example float16 False 0" "fcg_example float16 False 0" "\<lambda>d. \<lparr>major = 7\<rparr>"]
  by (simp add: example_defs)

subsection \<open>The TensorCore entry points\<close>

text \<open>
  Claim C5. Each \<^verbatim>\<open>TensorCoreEngine\<close> entry point, forward or gradient, calls its
  dispatcher with the flag false, whatever the operator's own
  \<^verbatim>\<open>float16_compute_\<close> is. So, for every input type and all device properties, it
  runs no instantiation whose Math is \<^verbatim>\<open>float16\<close>, and it logs nothing.
\<close>

theorem tensorcore_entry_forces_flag_off:
  "FullyConnectedOp_RunOnDevice TensorCoreEngine t GetDeviceProperty fop =
     RunFullyConnectedOpOnCUDADevice GetDeviceProperty False fop \<and>
   FullyConnectedGradientOp_RunOnDevice TensorCoreEngine t GetDeviceProperty gop =
     RunFullyConnectedGradientOpOnCUDADevice GetDeviceProperty False gop \<and>
   float16 \<notin> set (map fc_Math
     (invoked (snd (FullyConnectedOp_RunOnDevice TensorCoreEngine t GetDeviceProperty fop)))) \<and>
   float16 \<notin> set (map fcg_Math
     (invoked (snd (FullyConnectedGradientOp_RunOnDevice TensorCoreEngine t GetDeviceProperty
       gop)))) \<and>
   logged (snd (FullyConnectedOp_RunOnDevice TensorCoreEngine t GetDeviceProperty fop)) = [] \<and>
   logged (snd (FullyConnectedGradientOp_RunOnDevice TensorCoreEngine t GetDeviceProperty gop))
     = []"
  by (simp add: dispatch_defs FullyConnectedOp_RunOnDevice_def
      FullyConnectedGradientOp_RunOnDevice_def)

theorem tensorcore_entry_forces_flag_off_witness:
  "FullyConnectedOp_RunOnDevice TensorCoreEngine True (\<lambda>d. \<lparr>major = 7\<rparr>)
       (fc_example float16 True 0) =
     RunFullyConnectedOpOnCUDADevice (\<lambda>d. \<lparr>major = 7\<rparr>) False (fc_example float16 True 0) \<and>
   logged (snd (FullyConnectedGradientOp_RunOnDevice TensorCoreEngine True
       (\<lambda>d. \<lparr>major = 5\<rparr>) (fcg_example float16 True 0))) = []"
  using tensorcore_entry_forces_flag_off
      [of True "\<lambda>d. \<lparr>major = 7\<rparr>" "fc_example float16 True 0" "fcg_example float16 True 0"]
    tensorcore_entry_forces_flag_off
      [of True "\<lambda>d. \<lparr>major = 5\<rparr>" "fc_example float16 True 0" "fcg_example float16 True 0"]
  by blast

subsection \<open>Unsupported input types\<close>

text \<open>
  Claim C6. When input 0 is neither \<^verbatim>\<open>float\<close> nor \<^verbatim>\<open>float16\<close>, each dispatcher
  throws the \<^verbatim>\<open>"Unsupported type"\<close> error and nothing else happens: no routine is
  run.
\<close>

theorem unsupported_type_throws_without_running:
  assumes "Input0 fop \<noteq> float" and "Input0 fop \<noteq> float16"
    and "Input0 gop \<noteq> float" and "Input0 gop \<noteq> float16"
  shows "RunFullyConnectedOpOnCUDADevice GetDeviceProperty float16_compute fop =
           (Inl UnsupportedType, []) \<and>
         RunFullyConnectedGradientOpOnCUDADevice GetDeviceProperty float16_compute gop =
           (Inl UnsupportedType, []) \<and>
         length (invoked (snd (RunFullyConnectedOpOnCUDADevice GetDeviceProperty
           float16_compute fop))) = 0 \<and>
         length (invoked (snd (RunFullyConnectedGradientOpOnCUDADevice GetDeviceProperty
           float16_compute gop))) = 0"
  using assms by (simp add: dispatch_defs UnsupportedType_def)

theorem unsupported_type_throws_without_running_witness:
  "RunFullyConnectedOpOnCUDADevice (\<lambda>d. \<lparr>major = 7\<rparr>) True
       (fc_example (other_type 0) True 0) =
     (Inl (EnforceNotMet ''Unsupported type''), []) \<and>
   RunFullyConnectedGradientOpOnCUDADevice (\<lambda>d. \<lparr>major = 7\<rparr>) True
       (fcg_example (other_type 1) True 0) =
     (Inl (EnforceNotMet ''Unsupported type''), [])"
  using unsupported_type_throws_without_running
    [of "fc_example (other_type 0) True 0" "fcg_example (other_type 1) True 0"
      "\<lambda>d. \<lparr>major = 7\<rparr>" True]
  by (simp add: example_defs UnsupportedType_def)

subsection \<open>The accumulation type is never the narrowest\<close>

text \<open>
  Claim C7. Every instantiation either dispatcher runs, for any input type, flag and
  device properties, has a sound accumulation type: Math is \<^verbatim>\<open>float\<close> or equal to
  every operand type, and it is not narrower than all operand types.
\<close>

theorem math_never_below_operands:
  "(i \<in> set (invoked (snd (RunFullyConnectedOpOnCUDADevice GetDeviceProperty float16_compute
       fop))) \<longrightarrow> fc_math_ok i) \<and>
   (j \<in> set (invoked (snd (RunFullyConnectedGradientOpOnCUDADevice GetDeviceProperty
       float16_compute gop))) \<longrightarrow> fcg_math_ok j)"
  by (auto simp add: dispatch_defs fc_math_ok_def fcg_math_ok_def lower_precision_def
      Let_def split: if_splits)

theorem math_never_below_operands_witness:
  "fc_all float16 float16 \<in> set (invoked (snd (RunFullyConnectedOpOnCUDADevice
       (\<lambda>d. \<lparr>major = 7\<rparr>) True (fc_example float16 True 0)))) \<and>
   fc_math_ok (fc_all float16 float16) \<and>
   fcg_all float16 float \<in> set (invoked (snd (RunFullyConnectedGradientOpOnCUDADevice
       (\<lambda>d. \<lparr>major = 5\<rparr>) True (fcg_example float16 True 0)))) \<and>
   fcg_math_ok (fcg_all float16 float)"
proof -
  have f: "fc_all float16 float16 \<in> set (invoked (snd (RunFullyConnectedOpOnCUDADevice
      (\<lambda>d. \<lparr>major = 7\<rparr>) True (fc_example float16 True 0))))"
    by (simp add: dispatch_defs fc_example_def kFp16CUDADevicePropMajor_def)
  have g: "fcg_all float16 float \<in> set (invoked (snd (RunFullyConnectedGradientOpOnCUDADevice
      (\<lambda>d. \<lparr>major = 5\<rparr>) True (fcg_example float16 True 0))))"
    by (simp add: dispatch_defs fcg_example_def kFp16CUDADevicePropMajor_def)
  from f g
    math_never_below_operands
      [where i = "fc_all float16 float16" and GetDeviceProperty = "\<lambda>d. \<lparr>major = 7\<rparr>"
        and float16_compute = True and fop = "fc_example float16 True 0"]
    math_never_below_operands
      [where j = "fcg_all float16 float" and GetDeviceProperty = "\<lambda>d. \<lparr>major = 5\<rparr>"
        and float16_compute = True and gop = "fcg_example float16 True 0"]
  show ?thesis by blast
qed

subsection \<open>The two dispatchers agree\<close>

text \<open>
  Claim C8. For the same type of input 0, the same flag and the same device
  properties, the forward and the gradient dispatcher do the same things in the same
  order (device query, fallback message, run), give X, W, B and Math the same types in
  the instantiation they run, and both return or both throw the same error.
\<close>

theorem forward_and_gradient_agree:
  assumes "Input0 fop = Input0 gop"
  shows "map (map_event fc_shared)
           (snd (RunFullyConnectedOpOnCUDADevice GetDeviceProperty float16_compute fop)) =
         map (map_event fcg_shared)
           (snd (RunFullyConnectedGradientOpOnCUDADevice GetDeviceProperty float16_compute
             gop)) \<and>
         thrown (RunFullyConnectedOpOnCUDADevice GetDeviceProperty float16_compute fop) =
         thrown (RunFullyConnectedGradientOpOnCUDADevice GetDeviceProperty float16_compute
           gop)"
  using assms
  by (simp add: dispatch_defs fc_shared_def fcg_shared_def thrown_def Let_def)

theorem forward_and_gradient_agree_witness:
  "map (map_event fc_shared)
     (snd (RunFullyConnectedOpOnCUDADevice (\<lambda>d. \<lparr>major = 5\<rparr>) True
       (fc_example float16 True 0))) =
   [GetDevicePropertyCall 0, LOG_INFO fallback_message,
    DoRunWithTypeCall (float16, float16, float16, float)] \<and>
   map (map_event fcg_shared)
     (snd (RunFullyConnectedGradientOpOnCUDADevice (\<lambda>d. \<lparr>major = 5\<rparr>) True
       (fcg_example float16 True 0))) =
   [GetDevicePropertyCall 0, LOG_INFO fallback_message,
    DoRunWithTypeCall (float16, float16, float16, float)] \<and>
   thrown (RunFullyConnectedOpOnCUDADevice (\<lambda>d. \<lparr>major = 5\<rparr>) True
     (fc_example float16 True 0)) = None \<and>
   thrown (RunFullyConnectedGradientOpOnCUDADevice (\<lambda>d. \<lparr>major = 5\<rparr>) True
     (fcg_example float16 True 0)) = None"
proof -
  have g: "RunFullyConnectedGradientOpOnCUDADevice (\<lambda>d. \<lparr>major = 5\<rparr>) True
      (fcg_example float16 True 0) =
    (Inr True,
     [GetDevicePropertyCall 0, LOG_INFO fallback_message,
      DoRunWithTypeCall (fcg_all float16 float)])"
    by (simp add: dispatch_defs fcg_example_def kFp16CUDADevicePropMajor_def)
  have t: "Input0 (fc_example float16 True 0) = Input0 (fcg_example float16 True 0)"
    by (simp add: fc_example_def fcg_example_def)
  from forward_and_gradient_agree [OF t, of "\<lambda>d. \<lparr>major = 5\<rparr>" True]
  show ?thesis
    by (simp add: g fcg_shared_def fcg_all_def thrown_def)
qed

subsection \<open>One routine, its result unchanged\<close>

text \<open>
  Claim C9. When input 0 is \<^verbatim>\<open>float\<close> or \<^verbatim>\<open>float16\<close>, each dispatcher, for any
  flag and device properties, runs exactly one instantiation of
  \<^verbatim>\<open>DoRunWithType\<close> and returns what that call returns.
\<close>

theorem supported_dispatch_runs_one_routine:
  assumes "Input0 fop = float \<or> Input0 fop = float16"
    and "Input0 gop = float \<or> Input0 gop = float16"
  shows "(\<exists>i. invoked (snd (RunFullyConnectedOpOnCUDADevice GetDeviceProperty float16_compute
              fop)) = [i] \<and>
            fst (RunFullyConnectedOpOnCUDADevice GetDeviceProperty float16_compute fop) =
              Inr (DoRunWithType fop i)) \<and>
         (\<exists>j. invoked (snd (RunFullyConnectedGradientOpOnCUDADevice GetDeviceProperty
              float16_compute gop)) = [j] \<and>
            fst (RunFullyConnectedGradientOpOnCUDADevice GetDeviceProperty float16_compute
              gop) = Inr (DoRunWithType gop j))"
  using assms
  by (auto simp add: dispatch_defs Let_def)

theorem supported_dispatch_runs_one_routine_witness:
  "(\<exists>i. invoked (snd (RunFullyConnectedOpOnCUDADevice (\<lambda>d. \<lparr>major = 7\<rparr>) True
        (fc_example float16 True 0))) = [i] \<and>
      fst (RunFullyConnectedOpOnCUDADevice (\<lambda>d. \<lparr>major = 7\<rparr>) True
        (fc_example float16 True 0)) = Inr (fc_Math i = float)) \<and>
   (\<exists>j. invoked (snd (RunFullyConnectedGradientOpOnCUDADevice (\<lambda>d. \<lparr>major = 7\<rparr>) True
        (fcg_example float True 0))) = [j] \<and>
      fst (RunFullyConnectedGradientOpOnCUDADevice (\<lambda>d. \<lparr>major = 7\<rparr>) True
        (fcg_example float True 0)) = Inr (fcg_Math j = float))"
proof -
  have f: "Input0 (fc_example float16 True 0) = float \<or>
      Input0 (fc_example float16 True 0) = float16"
    by (simp add: fc_example_def)
  have g: "Input0 (fcg_example float True 0) = float \<or>
      Input0 (fcg_example float True 0) = float16"
    by (simp add: fcg_example_def)
  have df: "DoRunWithType (fc_example float16 True 0) = (\<lambda>i. fc_Math i = float)"
    by (simp add: fc_example_def)
  have dg: "DoRunWithType (fcg_example float True 0) = (\<lambda>i. fcg_Math i = float)"
    by (simp add: fcg_example_def)
  from supported_dispatch_runs_one_routine [OF f g, of "\<lambda>d. \<lparr>major = 7\<rparr>" True]
  show ?thesis
    unfolding df dg .
qed

subsection \<open>The device queried\<close>

text \<open>
  Claim C10. Each dispatcher queries a device exactly when input 0 is
  \<^verbatim>\<open>float16\<close> and the flag is true, and the device it queries is device 0, whatever
  the device of the operator's context is: the outcome depends on the device properties
  through those of device 0 only.
\<close>

theorem capability_query_reads_device_zero:
  "queried (snd (RunFullyConnectedOpOnCUDADevice GetDeviceProperty float16_compute fop)) =
     (if Input0 fop = float16 \<and> float16_compute then [0] else []) \<and>
   queried (snd (RunFullyConnectedGradientOpOnCUDADevice GetDeviceProperty float16_compute
     gop)) = (if Input0 gop = float16 \<and> float16_compute then [0] else []) \<and>
   queried (snd (RunFullyConnectedOpOnCUDADevice GetDeviceProperty float16_compute
     (fop\<lparr>context_gpu_id := d\<rparr>))) =
     queried (snd (RunFullyConnectedOpOnCUDADevice GetDeviceProperty float16_compute fop)) \<and>
   queried (snd (RunFullyConnectedGradientOpOnCUDADevice GetDeviceProperty float16_compute
     (gop\<lparr>context_gpu_id := d\<rparr>))) =
     queried (snd (RunFullyConnectedGradientOpOnCUDADevice GetDeviceProperty float16_compute
       gop)) \<and>
   (GetDeviceProperty 0 = GetDeviceProperty' 0 \<longrightarrow>
     RunFullyConnectedOpOnCUDADevice GetDeviceProperty float16_compute fop =
       RunFullyConnectedOpOnCUDADevice GetDeviceProperty' float16_compute fop \<and>
     RunFullyConnectedGradientOpOnCUDADevice GetDeviceProperty float16_compute gop =
       RunFullyConnectedGradientOpOnCUDADevice GetDeviceProperty' float16_compute gop)"
  by (simp add: dispatch_defs Let_def)

theorem capability_query_reads_device_zero_witness:
  "RunFullyConnectedOpOnCUDADevice (\<lambda>d. \<lparr>major = (if d = 0 then 5 else 7)\<rparr>) True
       (fc_example float16 True 1) =
     RunFullyConnectedOpOnCUDADevice (\<lambda>d. \<lparr>major = 5\<rparr>) True (fc_example float16 True 1) \<and>
   queried (snd (RunFullyConnectedGradientOpOnCUDADevice
       (\<lambda>d. \<lparr>major = (if d = 0 then 5 else 7)\<rparr>) True (fcg_example float16 True 1))) = [0]"
proof -
  have t: "Input0 (fcg_example float16 True 1) = float16"
    by (simp add: fcg_example_def)
  note q = capability_query_reads_device_zero
    [of "\<lambda>d. \<lparr>major = (if d = 0 then 5 else 7)\<rparr>" True "fc_example float16 True 1"
      "fcg_example float16 True 1" 1 "\<lambda>d. \<lparr>major = 5\<rparr>"]
  from q [THEN conjunct2, THEN conjunct2, THEN conjunct2, THEN conjunct2]
  have "RunFullyConnectedOpOnCUDADevice (\<lambda>d. \<lparr>major = (if d = 0 then 5 else 7)\<rparr>)
      True (fc_example float16 True 1) =
    RunFullyConnectedOpOnCUDADevice (\<lambda>d. \<lparr>major = 5\<rparr>) True (fc_example float16 True 1)"
    by simp
  moreover from q [THEN conjunct2, THEN conjunct1] t have "queried (snd (RunFullyConnectedGradientOpOnCUDADevice
      (\<lambda>d. \<lparr>major = (if d = 0 then 5 else 7)\<rparr>) True (fcg_example float16 True 1))) = [0]"
    by simp
  ultimately show ?thesis by simp
qed

end
